theory Spec2Isabelle
  imports Main "HOL-Library.Word" "HOL-Library.AList"
begin

section \<open>Data model\<close>

text \<open>
  A signing key is a \<^verbatim>\<open>Uint8Array\<close>: a list of bytes.
\<close>

type_synonym key = "8 word list"

text \<open>
  \<^verbatim>\<open>StoreOptions.sameSite\<close> has the type
  \<^verbatim>\<open>boolean | 'lax' | 'strict' | 'none'\<close> and may be left out.
\<close>

datatype same_site = SameSiteBool bool | Lax | Strict | SameSiteNone

record store_options =
  opt_sameSite :: "same_site option"
  opt_value :: string

text \<open>
  \<^verbatim>\<open>config.secret\<close> is one secret or an array of secrets.
\<close>

datatype secret_config = OneSecret string | SecretArray "string list"

text \<open>
  \<^verbatim>\<open>config.session.cookie\<close>: the fields the transient store reads
  (\<^verbatim>\<open>domain\<close>, \<^verbatim>\<open>path\<close>, \<^verbatim>\<open>secure\<close>); the object as a
  whole is what \<^verbatim>\<open>clearCookie\<close> receives.
\<close>

record cookie_config =
  cookie_domain :: "string option"
  cookie_path :: "string option"
  cookie_secure :: "bool option"

text \<open>
  The entries of \<^verbatim>\<open>Config\<close> that the transient store and the logout handler
  read: \<open>session_cookie\<close> is \<^verbatim>\<open>config.session.cookie\<close> and
  \<open>postLogoutRedirect\<close> is \<^verbatim>\<open>config.routes.postLogoutRedirect\<close>.
\<close>

record Config =
  secret :: secret_config
  legacySameSiteCookie :: bool
  session_cookie :: cookie_config
  baseURL :: string
  postLogoutRedirect :: string
  idpLogout :: bool

text \<open>
  The attribute object handed to \<^verbatim>\<open>setCookie\<close>. The fallback cookie is
  written with \<^verbatim>\<open>basicAttr\<close>, which has no \<^verbatim>\<open>sameSite\<close> entry.
\<close>

record cookie_attrs =
  httpOnly :: bool
  secure :: "bool option"
  domain :: "string option"
  path :: "string option"
  sameSite :: "same_site option"

text \<open>
  The calls a handler makes on its collaborators (the response, the session cache, the
  identity-provider client), recorded in the order in which they are made. The type
  \<open>'c\<close> is the type of signed cookie values.
\<close>

datatype 'c call =
    SetCookie string 'c cookie_attrs
  | ClearCookie string cookie_config
  | Redirect string
  | IsAuthenticated
  | GetIdToken
  | SessionDelete
  | EndSessionUrl "(string \<times> string option) list"

text \<open>
  The \<^verbatim>\<open>TransientStore\<close> object: its configuration and the lazily filled key
  cache (\<^verbatim>\<open>private keys?: Uint8Array[]\<close>).
\<close>

record TransientStore =
  config :: Config
  keys :: "key list option"

definition new_TransientStore :: "Config \<Rightarrow> TransientStore" where
  "new_TransientStore c = \<lparr>config = c, keys = None\<rparr>"

section \<open>The transient store\<close>

text \<open>
  \<^verbatim>\<open>Array.isArray(secret) ? secret : [secret]\<close>
\<close>

fun secrets :: "secret_config \<Rightarrow> string list" where
  "secrets (OneSecret s) = [s]"
| "secrets (SecretArray ss) = ss"

text \<open>
  \<^verbatim>\<open>getKeys\<close>: the keys are derived on the first call, one per secret and in the
  order of the secrets, and cached. The key derivation \<^verbatim>\<open>signing\<close> (of
  \<^verbatim>\<open>utils/hkdf\<close>) is a parameter.
\<close>

definition getKeys :: "(string \<Rightarrow> key) \<Rightarrow> TransientStore \<Rightarrow> key list \<times> TransientStore" where
  "getKeys signing st =
     (case keys st of
        None \<Rightarrow> (let ks = map signing (secrets (secret (config st))) in (ks, st\<lparr>keys := Some ks\<rparr>))
      | Some ks \<Rightarrow> (ks, st))"

text \<open>
  \<^verbatim>\<open>const [signingKey] = await this.getKeys()\<close>: the first element, undefined
  for an empty array.
\<close>

definition firstKey :: "key list \<Rightarrow> key option" where
  "firstKey ks = (case ks of [] \<Rightarrow> None | k # _ \<Rightarrow> Some k)"

text \<open>
  \<^verbatim>\<open>save\<close>. The codec function \<^verbatim>\<open>generateCookieValue\<close> (of
  \<^verbatim>\<open>utils/signed-cookies\<close>) is a parameter; it receives the cookie name, the
  value and the signing key. The response is the list of calls made so far; the result is
  the returned string, the response and the store.
\<close>

definition save ::
  "(string \<Rightarrow> key) \<Rightarrow> (string \<Rightarrow> string \<Rightarrow> key option \<Rightarrow> 'c) \<Rightarrow>
   string \<Rightarrow> 'c call list \<Rightarrow> store_options \<Rightarrow> TransientStore \<Rightarrow>
   string \<times> 'c call list \<times> TransientStore" where
  "save signing generateCookieValue key res opts st =
     (let sameSite' = (case opt_sameSite opts of None \<Rightarrow> SameSiteNone | Some s \<Rightarrow> s);
          val = opt_value opts;
          isSameSiteNone = (sameSite' = SameSiteNone);
          cc = session_cookie (config st);
          basicAttr = \<lparr>httpOnly = True, secure = cookie_secure cc, domain = cookie_domain cc,
                       path = cookie_path cc, sameSite = None\<rparr>;
          (ks, st') = getKeys signing st;
          signingKey = firstKey ks;
          res1 = res @ [SetCookie key (generateCookieValue key val signingKey)
                   (basicAttr\<lparr>sameSite := Some sameSite',
                               secure := (if isSameSiteNone then Some True else secure basicAttr)\<rparr>)];
          res2 = (if isSameSiteNone \<and> legacySameSiteCookie (config st)
                  then res1 @ [SetCookie (CHR ''_'' # key)
                                 (generateCookieValue (CHR ''_'' # key) val signingKey) basicAttr]
                  else res1)
      in (val, res2, st'))"

text \<open>
  \<^verbatim>\<open>!value\<close> for a \<^verbatim>\<open>string | undefined\<close>: true for undefined and for the
  empty string.
\<close>

definition falsy :: "string option \<Rightarrow> bool" where
  "falsy v = (case v of None \<Rightarrow> True | Some s \<Rightarrow> s = [])"

text \<open>
  \<^verbatim>\<open>read\<close>. The request is the cookie mapping \<^verbatim>\<open>req.getCookies()\<close>; the
  codec function \<^verbatim>\<open>getCookieValue\<close> is a parameter and receives the name, the
  cookie found under it (or undefined) and all the keys.
\<close>

definition read ::
  "(string \<Rightarrow> key) \<Rightarrow> (string \<Rightarrow> 'c option \<Rightarrow> key list \<Rightarrow> string option) \<Rightarrow>
   string \<Rightarrow> (string \<rightharpoonup> 'c) \<Rightarrow> 'c call list \<Rightarrow> TransientStore \<Rightarrow>
   string option \<times> 'c call list \<times> TransientStore" where
  "read signing getCookieValue key cookies res st =
     (let cookie = cookies key;
          cookieConfig = session_cookie (config st);
          (verifyingKeys, st') = getKeys signing st;
          val = getCookieValue key cookie verifyingKeys;
          res1 = res @ [ClearCookie key cookieConfig]
      in if legacySameSiteCookie (config st)
         then (let fallbackKey = CHR ''_'' # key;
                   val' = (if falsy val
                           then getCookieValue fallbackKey (cookies fallbackKey) verifyingKeys
                           else val)
               in (val', res1 @ [ClearCookie fallbackKey cookieConfig], st'))
         else (val, res1, st'))"

section \<open>The logout handler\<close>

text \<open>
  \<^verbatim>\<open>LogoutOptions\<close>: both entries are optional; the values of
  \<^verbatim>\<open>logoutParams\<close> may be undefined.
\<close>

record LogoutOptions =
  returnTo :: "string option"
  logoutParams :: "(string \<times> string option) list option"

text \<open>
  The session collaborator, over a session state \<open>'s\<close>: the two queries return their
  answer and the state they leave, \<^verbatim>\<open>delete\<close> returns the state it leaves.
\<close>

record 's SessionCache =
  isAuthenticated :: "'s \<Rightarrow> bool \<times> 's"
  getIdToken :: "'s \<Rightarrow> string option \<times> 's"
  delete :: "'s \<Rightarrow> 's"

text \<open>
  The return URL: \<^verbatim>\<open>options.returnTo || config.routes.postLogoutRedirect\<close> (an
  empty string is falsy), joined to the base URL when \<^verbatim>\<open>new URL(returnURL)\<close>
  throws. Whether a string parses as a URL (\<open>isURL\<close>) and \<^verbatim>\<open>urlJoin\<close> are
  parameters.
\<close>

definition logoutReturnURL ::
  "(string \<Rightarrow> bool) \<Rightarrow> (string \<Rightarrow> string \<Rightarrow> string) \<Rightarrow> Config \<Rightarrow> LogoutOptions \<Rightarrow> string" where
  "logoutReturnURL isURL urlJoin cfg options =
     (let returnURL = (case returnTo options of
                         None \<Rightarrow> postLogoutRedirect cfg
                       | Some r \<Rightarrow> if r = [] then postLogoutRedirect cfg else r)
      in if isURL returnURL then returnURL else urlJoin (baseURL cfg) returnURL)"

text \<open>
  The argument of \<^verbatim>\<open>client.endSessionUrl\<close>: the spread of
  \<^verbatim>\<open>options.logoutParams\<close>, then \<^verbatim>\<open>post_logout_redirect_uri\<close> and
  \<^verbatim>\<open>id_token_hint\<close>, each replacing an entry of the same name.
\<close>

definition endSessionParams ::
  "LogoutOptions \<Rightarrow> string \<Rightarrow> string option \<Rightarrow> (string \<times> string option) list" where
  "endSessionParams options returnURL idToken =
     AList.update ''id_token_hint'' idToken
       (AList.update ''post_logout_redirect_uri'' (Some returnURL)
          (case logoutParams options of None \<Rightarrow> [] | Some ps \<Rightarrow> ps))"

text \<open>
  The handler returned by \<^verbatim>\<open>logoutHandlerFactory\<close>. The identity-provider client's
  \<^verbatim>\<open>endSessionUrl\<close> is a parameter and may fail with an error \<open>'e\<close>. The result is
  the outcome of the handler, the session state and the calls made.
\<close>

definition logout ::
  "(string \<Rightarrow> bool) \<Rightarrow> (string \<Rightarrow> string \<Rightarrow> string) \<Rightarrow> Config \<Rightarrow>
   ((string \<times> string option) list \<Rightarrow> 'e + string) \<Rightarrow> 's SessionCache \<Rightarrow>
   LogoutOptions \<Rightarrow> 's \<Rightarrow> 'c call list \<Rightarrow> ('e + unit) \<times> 's \<times> 'c call list" where
  "logout isURL urlJoin cfg endSessionUrl sessionCache options s res =
     (let returnURL = logoutReturnURL isURL urlJoin cfg options;
          (authenticated, s1) = isAuthenticated sessionCache s;
          res1 = res @ [IsAuthenticated]
      in if \<not> authenticated then (Inr (), s1, res1 @ [Redirect returnURL])
         else
           (let (idToken, s2) = getIdToken sessionCache s1;
                s3 = delete sessionCache s2;
                res3 = res1 @ [GetIdToken, SessionDelete]
            in if \<not> idpLogout cfg then (Inr (), s3, res3 @ [Redirect returnURL])
               else
                 (let params = endSessionParams options returnURL idToken
                  in case endSessionUrl params of
                       Inl e \<Rightarrow> (Inl e, s3, res3 @ [EndSessionUrl params])
                     | Inr url \<Rightarrow> (Inr (), s3, res3 @ [EndSessionUrl params, Redirect url]))))"

section \<open>The signed cookie codec\<close>

text \<open>
  The codec \<^verbatim>\<open>utils/signed-cookies\<close> is not among the sources. The definitions of
  this section follow its description; the message authentication code itself is a
  parameter \<open>mac\<close>, which receives the cookie name, the payload and the key and returns
  a tag of some type \<open>'t\<close>.
\<close>

text \<open>
  Modelled from the spec: the two failures of \<^verbatim>\<open>decode\<close>, "InvalidSignature"
  and "Malformed".
\<close>

datatype cookie_error = InvalidSignature | Malformed

text \<open>
  Modelled from the spec: the signed cookie value, "encoded(payload) + separator +
  signature". The serialisation is abstracted: a value is the pair of payload and tag, or
  a string that cannot be split.
\<close>

datatype 't signed_cookie = Signed string 't | Unsplittable string

text \<open>
  Modelled from the spec: \<^verbatim>\<open>encode(name, value, key)\<close> "serializes value and appends
  a message-authentication tag computed over name and the serialized value".
\<close>

definition encode ::
  "(string \<Rightarrow> string \<Rightarrow> key option \<Rightarrow> 't) \<Rightarrow> string \<Rightarrow> string \<Rightarrow> key option \<Rightarrow> 't signed_cookie" where
  "encode mac name v k = Signed v (mac name v k)"

text \<open>
  Modelled from the spec: \<^verbatim>\<open>decode\<close> "recomputes the tag with each candidate key in
  order until one matches". The key found is the first one of the list whose tag is the
  received tag.
\<close>

definition matchingKey ::
  "(string \<Rightarrow> string \<Rightarrow> key option \<Rightarrow> 't) \<Rightarrow> string \<Rightarrow> string \<Rightarrow> 't \<Rightarrow> key list \<Rightarrow> key option" where
  "matchingKey mac name v t ks = find (\<lambda>k. mac name v (Some k) = t) ks"

text \<open>
  Modelled from the spec: \<^verbatim>\<open>decode(name, cookieValue, keys[])\<close> "returns the
  deserialized value on first match, fails with an InvalidSignature outcome if no key
  matches, or Malformed if the value cannot be split/deserialized".
\<close>

definition decode ::
  "(string \<Rightarrow> string \<Rightarrow> key option \<Rightarrow> 't) \<Rightarrow> string \<Rightarrow> 't signed_cookie \<Rightarrow> key list \<Rightarrow>
   cookie_error + string" where
  "decode mac name cv ks =
     (case cv of
        Unsplittable _ \<Rightarrow> Inl Malformed
      | Signed v t \<Rightarrow>
          (case matchingKey mac name v t ks of
             None \<Rightarrow> Inl InvalidSignature
           | Some _ \<Rightarrow> Inr v))"

text \<open>
  Modelled from the spec: \<^verbatim>\<open>getCookieValue\<close> as the transient store sees it. A
  missing cookie has no value, and the failures of \<^verbatim>\<open>decode\<close> "collapse to no
  value".
\<close>

definition getCookieValue ::
  "(string \<Rightarrow> string \<Rightarrow> key option \<Rightarrow> 't) \<Rightarrow> string \<Rightarrow> 't signed_cookie option \<Rightarrow> key list \<Rightarrow>
   string option" where
  "getCookieValue mac name cookie ks =
     (case cookie of
        None \<Rightarrow> None
      | Some cv \<Rightarrow> (case decode mac name cv ks of Inl _ \<Rightarrow> None | Inr v \<Rightarrow> Some v))"

section \<open>The login handler\<close>

text \<open>
  The login handler is not among the sources (its tests are). The definitions of this
  section follow its description. Classifying a reference as path-relative and resolving
  a reference against the origin of a URL are parameters (\<open>isPathRelative\<close>,
  \<open>resolveAgainstOrigin\<close>), as are the serialisation of the state, the PKCE challenge
  and the construction of the authorization URL.
\<close>

text \<open>
  Modelled from the spec: what the custom state hook returns, a key/value mapping or a
  value that is not a mapping ("a bare scalar").
\<close>

datatype hook_value =
    StateMapping "(string \<times> string) list"
  | StateNumber int
  | StateText string
  | StateBoolean bool
  | StateNull

text \<open>
  Modelled from the spec: the condition "InvalidCustomState" with which login fails.
\<close>

datatype login_error = InvalidCustomState

text \<open>
  Modelled from the spec: the per-call options of login, namely the explicit
  \<^verbatim>\<open>returnTo\<close>, the caller's authorization parameters and the result of the custom
  state hook when one is supplied.
\<close>

record LoginOptions =
  login_returnTo :: "string option"
  authorizationParams :: "(string \<times> string) list"
  getLoginState :: "hook_value option"

text \<open>
  Modelled from the spec: the configuration login reads besides the base URL, namely the
  client id, the configured default return URL, and the default and the configured
  authorization parameters.
\<close>

record LoginConfig =
  clientID :: string
  defaultReturnTo :: string
  defaultAuthorizationParams :: "(string \<times> string) list"
  configAuthorizationParams :: "(string \<times> string) list"

text \<open>
  Modelled from the spec: step 2 of the return-URL resolution. "If a returnTo query
  parameter is present, take only the first occurrence; reject it (treat as absent) unless
  it is a path-relative reference". The query string is the list of its parameters in
  order; \<open>map_of\<close> finds the first entry of a name. The outcome tells a query string
  without the parameter from one whose parameter was rejected.
\<close>

datatype query_returnTo = NoReturnTo | RejectedReturnTo | SafeReturnTo string

definition queryReturnTo :: "(string \<Rightarrow> bool) \<Rightarrow> (string \<times> string) list \<Rightarrow> query_returnTo" where
  "queryReturnTo isPathRelative query =
     (case map_of query ''returnTo'' of
        None \<Rightarrow> NoReturnTo
      | Some r \<Rightarrow> if isPathRelative r then SafeReturnTo r else RejectedReturnTo)"

text \<open>
  Modelled from the spec: the effective redirect URI, "preferring a caller/config
  override of redirect_uri over the base application URL".
\<close>

definition effectiveRedirectUri :: "Config \<Rightarrow> LoginConfig \<Rightarrow> LoginOptions \<Rightarrow> string" where
  "effectiveRedirectUri cfg lcfg options =
     (case map_of (AList.merge (configAuthorizationParams lcfg) (authorizationParams options))
             ''redirect_uri'' of
        None \<Rightarrow> baseURL cfg
      | Some u \<Rightarrow> u)"

text \<open>
  Modelled from the spec: steps 1 to 4 of the return-URL resolution. Start with the
  configured default; a safe \<^verbatim>\<open>returnTo\<close> of the query string replaces it, a
  rejected one is "treated as absent" and leaves no return URL (the login state's
  \<^verbatim>\<open>returnTo\<close> is a "string or absent", and absent is what the handler's test of an
  absolute URL in the query string expects); an explicit option replaces either; "any
  relative result is resolved against the effective redirect-URI origin".
\<close>

definition resolveReturnTo ::
  "(string \<Rightarrow> bool) \<Rightarrow> (string \<Rightarrow> string \<Rightarrow> string) \<Rightarrow> Config \<Rightarrow> LoginConfig \<Rightarrow>
   (string \<times> string) list \<Rightarrow> LoginOptions \<Rightarrow> string option" where
  "resolveReturnTo isPathRelative resolveAgainstOrigin cfg lcfg query options =
     (let r1 = Some (defaultReturnTo lcfg);
          r2 = (case queryReturnTo isPathRelative query of
                  NoReturnTo \<Rightarrow> r1
                | RejectedReturnTo \<Rightarrow> None
                | SafeReturnTo r \<Rightarrow> Some r);
          r3 = (case login_returnTo options of None \<Rightarrow> r2 | Some r \<Rightarrow> Some r)
      in case r3 of
           None \<Rightarrow> None
         | Some r \<Rightarrow>
             Some (if isPathRelative r
                   then resolveAgainstOrigin (effectiveRedirectUri cfg lcfg options) r
                   else r))"

text \<open>
  Modelled from the spec: steps 5 and 6. The hook's mapping "is merged over the
  accumulated state"; "if the custom hook returns a non-mapping value, login fails with
  an InvalidCustomState condition".
\<close>

definition loginState ::
  "(string \<Rightarrow> bool) \<Rightarrow> (string \<Rightarrow> string \<Rightarrow> string) \<Rightarrow> Config \<Rightarrow> LoginConfig \<Rightarrow>
   (string \<times> string) list \<Rightarrow> LoginOptions \<Rightarrow> login_error + (string \<times> string) list" where
  "loginState isPathRelative resolveAgainstOrigin cfg lcfg query options =
     (let accumulated =
            (case resolveReturnTo isPathRelative resolveAgainstOrigin cfg lcfg query options of
               None \<Rightarrow> []
             | Some r \<Rightarrow> [(''returnTo'', r)])
      in case getLoginState options of
           None \<Rightarrow> Inr accumulated
         | Some (StateMapping m) \<Rightarrow> Inr (AList.merge accumulated m)
         | Some _ \<Rightarrow> Inl InvalidCustomState)"

text \<open>
  Modelled from the spec: the authorization request parameters, merged "in increasing
  precedence, SDK defaults < static configuration < per-call caller options", with
  \<^verbatim>\<open>client_id\<close>, \<^verbatim>\<open>response_type=code\<close>, \<^verbatim>\<open>redirect_uri\<close>,
  \<^verbatim>\<open>state\<close>, \<^verbatim>\<open>nonce\<close>, \<^verbatim>\<open>code_challenge\<close> and
  \<^verbatim>\<open>code_challenge_method=S256\<close>.
\<close>

definition authorizationParameters ::
  "Config \<Rightarrow> LoginConfig \<Rightarrow> LoginOptions \<Rightarrow> string \<Rightarrow> string \<Rightarrow> string \<Rightarrow> (string \<times> string) list" where
  "authorizationParameters cfg lcfg options stateValue nonce challenge =
     AList.update ''code_challenge_method'' ''S256''
       (AList.update ''code_challenge'' challenge
          (AList.update ''nonce'' nonce
             (AList.update ''state'' stateValue
                (AList.update ''redirect_uri'' (effectiveRedirectUri cfg lcfg options)
                   (AList.update ''response_type'' ''code''
                      (AList.update ''client_id'' (clientID lcfg)
                         (AList.merge
                            (AList.merge (defaultAuthorizationParams lcfg) (configAuthorizationParams lcfg))
                            (authorizationParams options))))))))"

text \<open>
  Modelled from the spec: the login orchestrator. (a) build the login state; (b) take a
  nonce and a PKCE code verifier (random, so arguments here) and derive the challenge;
  (c) persist nonce, state and code verifier through \<^verbatim>\<open>save\<close> of the transient
  store, "all with sameSite=lax"; (d) compute the authorization parameters; (e) redirect.
  A failure in (a) "aborts before any cookies are written or any redirect issued".
\<close>

definition login ::
  "(string \<Rightarrow> key) \<Rightarrow> (string \<Rightarrow> string \<Rightarrow> key option \<Rightarrow> 'c) \<Rightarrow>
   (string \<Rightarrow> bool) \<Rightarrow> (string \<Rightarrow> string \<Rightarrow> string) \<Rightarrow>
   ((string \<times> string) list \<Rightarrow> string) \<Rightarrow> (string \<Rightarrow> string) \<Rightarrow> ((string \<times> string) list \<Rightarrow> string) \<Rightarrow>
   Config \<Rightarrow> LoginConfig \<Rightarrow> (string \<times> string) list \<Rightarrow> LoginOptions \<Rightarrow> string \<Rightarrow> string \<Rightarrow>
   'c call list \<Rightarrow> TransientStore \<Rightarrow> (login_error + unit) \<times> 'c call list \<times> TransientStore" where
  "login signing generateCookieValue isPathRelative resolveAgainstOrigin encodeState codeChallenge
     authorizeUrl cfg lcfg query options nonce codeVerifier res st =
     (case loginState isPathRelative resolveAgainstOrigin cfg lcfg query options of
        Inl e \<Rightarrow> (Inl e, res, st)
      | Inr state \<Rightarrow>
          (let stateValue = encodeState state;
               (_, res1, st1) = save signing generateCookieValue ''nonce'' res
                                  \<lparr>opt_sameSite = Some Lax, opt_value = nonce\<rparr> st;
               (_, res2, st2) = save signing generateCookieValue ''state'' res1
                                  \<lparr>opt_sameSite = Some Lax, opt_value = stateValue\<rparr> st1;
               (_, res3, st3) = save signing generateCookieValue ''code_verifier'' res2
                                  \<lparr>opt_sameSite = Some Lax, opt_value = codeVerifier\<rparr> st2;
               params = authorizationParameters cfg lcfg options stateValue nonce
                          (codeChallenge codeVerifier)
           in (Inr (), res3 @ [Redirect (authorizeUrl params)], st3)))"

text \<open>
  Modelled from the spec: the server error a failed login surfaces as, "a server error
  (5xx) with a message identifying the failing phase". Status and status text are those
  the handler's test expects.
\<close>

definition errorResponse :: "login_error \<Rightarrow> nat \<times> string" where
  "errorResponse e =
     (500, ''Login handler failed. CAUSE: '' @
           (case e of InvalidCustomState \<Rightarrow> ''Custom state value must be an object''))"

section \<open>Observations and invariants\<close>

text \<open>The calls a handler added to the response it was given.\<close>

definition newCalls :: "'c call list \<Rightarrow> 'c call list \<Rightarrow> 'c call list" where
  "newCalls res res' = drop (length res) res'"

fun isClearOf :: "string \<Rightarrow> 'c call \<Rightarrow> bool" where
  "isClearOf name (ClearCookie n _) = (n = name)"
| "isClearOf name _ = False"

fun isRedirect :: "'c call \<Rightarrow> bool" where
  "isRedirect (Redirect _) = True"
| "isRedirect _ = False"

fun isEndSessionUrl :: "'c call \<Rightarrow> bool" where
  "isEndSessionUrl (EndSessionUrl _) = True"
| "isEndSessionUrl _ = False"

text \<open>
  A user agent that honours the response: \<^verbatim>\<open>setCookie\<close> stores the cookie in its
  jar, \<^verbatim>\<open>clearCookie\<close> removes it.
\<close>

fun applyCall :: "(string \<rightharpoonup> 'c) \<Rightarrow> 'c call \<Rightarrow> (string \<rightharpoonup> 'c)" where
  "applyCall jar (SetCookie n v _) = jar(n \<mapsto> v)"
| "applyCall jar (ClearCookie n _) = jar(n := None)"
| "applyCall jar _ = jar"

definition applyCalls :: "(string \<rightharpoonup> 'c) \<Rightarrow> 'c call list \<Rightarrow> (string \<rightharpoonup> 'c)" where
  "applyCalls jar cs = foldl applyCall jar cs"

text \<open>The names and values of the cookies set, in order.\<close>

fun setCookieValues :: "'c call list \<Rightarrow> (string \<times> 'c) list" where
  "setCookieValues [] = []"
| "setCookieValues (SetCookie n v _ # cs) = (n, v) # setCookieValues cs"
| "setCookieValues (_ # cs) = setCookieValues cs"

text \<open>
  The key cache is either empty or holds the keys of the configured secrets, in their
  order. The constructor establishes this and every method keeps it.
\<close>

definition cacheConsistent :: "(string \<Rightarrow> key) \<Rightarrow> TransientStore \<Rightarrow> bool" where
  "cacheConsistent signing st =
     (keys st = None \<or> keys st = Some (map signing (secrets (secret (config st)))))"

section \<open>Concrete collaborators\<close>

text \<open>
  A configuration with two secrets and legacy mode on, and simple collaborators, on which
  the definitions are run: a key derivation that returns the bytes of the secret, a tag
  that is the triple of name, payload and key (so two tags are equal only if all three
  are), a session that is the id token of the logged-in user, and URL functions for
  references that start with a slash.
\<close>

definition demo_config :: Config where
  "demo_config =
     \<lparr>secret = SecretArray [''new'', ''old''], legacySameSiteCookie = True,
      session_cookie = \<lparr>cookie_domain = None, cookie_path = Some ''/'', cookie_secure = Some False\<rparr>,
      baseURL = ''http://www.acme.com'', postLogoutRedirect = [], idpLogout = True\<rparr>"

definition demo_loginConfig :: LoginConfig where
  "demo_loginConfig =
     \<lparr>clientID = ''client'', defaultReturnTo = ''http://www.acme.com/'',
      defaultAuthorizationParams = [(''scope'', ''openid profile'')],
      configAuthorizationParams = []\<rparr>"

definition demo_signing :: "string \<Rightarrow> key" where
  "demo_signing s = map (\<lambda>c. of_nat (of_char c)) s"

definition demo_mac :: "string \<Rightarrow> string \<Rightarrow> key option \<Rightarrow> string \<times> string \<times> key option" where
  "demo_mac name v k = (name, v, k)"

definition demo_sessionCache :: "string option SessionCache" where
  "demo_sessionCache =
     \<lparr>isAuthenticated = (\<lambda>s. (s \<noteq> None, s)), getIdToken = (\<lambda>s. (s, s)), delete = (\<lambda>s. None)\<rparr>"

definition demo_isURL :: "string \<Rightarrow> bool" where
  "demo_isURL u = (take 4 u = ''http'')"

definition demo_urlJoin :: "string \<Rightarrow> string \<Rightarrow> string" where
  "demo_urlJoin a b = a @ b"

definition demo_isPathRelative :: "string \<Rightarrow> bool" where
  "demo_isPathRelative r = (take 1 r = ''/'' \<and> take 2 r \<noteq> ''//'')"

definition demo_resolveAgainstOrigin :: "string \<Rightarrow> string \<Rightarrow> string" where
  "demo_resolveAgainstOrigin base r =
     (let scheme = takeWhile (\<lambda>c. c \<noteq> CHR ''/'') base;
          host = takeWhile (\<lambda>c. c \<noteq> CHR ''/'') (drop (length scheme + 2) base)
      in scheme @ ''//'' @ host @ r)"

section \<open>Auxiliary facts\<close>

lemma newCalls_append [simp]: "newCalls res (res @ cs) = cs"
  by (simp add: newCalls_def)

lemma save_eq:
  "save signing gen key res opts st =
     (let sameSite' = (case opt_sameSite opts of None \<Rightarrow> SameSiteNone | Some s \<Rightarrow> s);
          cc = session_cookie (config st);
          sk = firstKey (fst (getKeys signing st));
          basicAttr = \<lparr>httpOnly = True, secure = cookie_secure cc, domain = cookie_domain cc,
                       path = cookie_path cc, sameSite = None\<rparr>
      in (opt_value opts,
          res @ SetCookie key (gen key (opt_value opts) sk)
                  (basicAttr\<lparr>sameSite := Some sameSite',
                     secure := (if sameSite' = SameSiteNone then Some True else cookie_secure cc)\<rparr>)
              # (if sameSite' = SameSiteNone \<and> legacySameSiteCookie (config st)
                 then [SetCookie (CHR ''_'' # key) (gen (CHR ''_'' # key) (opt_value opts) sk) basicAttr]
                 else []),
          snd (getKeys signing st)))"
  by (simp add: save_def Let_def split: prod.splits)

lemma read_eq:
  "read signing get key cookies res st =
     (let cc = session_cookie (config st);
          ks = fst (getKeys signing st);
          v = get key (cookies key) ks
      in if legacySameSiteCookie (config st)
         then ((if falsy v then get (CHR ''_'' # key) (cookies (CHR ''_'' # key)) ks else v),
               res @ [ClearCookie key cc, ClearCookie (CHR ''_'' # key) cc],
               snd (getKeys signing st))
         else (v, res @ [ClearCookie key cc], snd (getKeys signing st)))"
  by (simp add: read_def Let_def split: prod.splits)

lemma getKeys_consistent:
  "cacheConsistent signing st \<Longrightarrow>
   fst (getKeys signing st) = map signing (secrets (secret (config st)))"
  by (auto simp: cacheConsistent_def getKeys_def Let_def)

lemma getKeys_config [simp]: "config (snd (getKeys signing st)) = config st"
  by (simp add: getKeys_def Let_def split: option.splits)

lemma getKeys_preserves:
  "cacheConsistent signing st \<Longrightarrow> cacheConsistent signing (snd (getKeys signing st))"
  by (auto simp: cacheConsistent_def getKeys_def Let_def)

lemma new_consistent: "cacheConsistent signing (new_TransientStore c)"
  by (simp add: cacheConsistent_def new_TransientStore_def)

lemma save_preserves:
  "cacheConsistent signing st \<Longrightarrow>
   cacheConsistent signing (snd (snd (save signing gen key res opts st)))"
  by (simp add: save_eq Let_def getKeys_preserves)

lemma read_preserves:
  "cacheConsistent signing st \<Longrightarrow>
   cacheConsistent signing (snd (snd (read signing get key cookies res st)))"
  by (simp add: read_eq Let_def getKeys_preserves)

section \<open>Properties of the transient store\<close>

text \<open>
  C10. \<^verbatim>\<open>save\<close> returns the caller's raw input value unchanged: the unsigned
  payload, whatever the codec wrote to the response.
\<close>

theorem save_returns_input_value:
  "fst (save signing generateCookieValue key res opts st) = opt_value opts"
  by (simp add: save_def Let_def split: prod.splits)

text \<open>
  C1 (as amended). When \<^verbatim>\<open>sameSite\<close> is \<^verbatim>\<open>'none'\<close> (given or by default) and
  \<^verbatim>\<open>legacySameSiteCookie\<close> is enabled, \<^verbatim>\<open>save\<close> sets exactly two cookies:
  the primary one under \<open>key\<close> and the fallback one under \<open>_key\<close>. Both carry the same
  payload signed with the same key, the first key of \<^verbatim>\<open>getKeys\<close>, but each value
  is generated for its own cookie name: the fallback value is
  \<^verbatim>\<open>generateCookieValue('_' + key, value, signingKey)\<close>, not the string written to
  the primary cookie.
\<close>

theorem save_fallback_cookie_value:
  assumes "opt_sameSite opts = None \<or> opt_sameSite opts = Some SameSiteNone"
      and "legacySameSiteCookie (config st)"
  shows "setCookieValues (newCalls res (fst (snd (save signing gen key res opts st)))) =
           [(key, gen key (opt_value opts) (firstKey (fst (getKeys signing st)))),
            (CHR ''_'' # key,
             gen (CHR ''_'' # key) (opt_value opts) (firstKey (fst (getKeys signing st))))]"
  using assms by (auto simp add: save_eq Let_def)

theorem save_fallback_cookie_value_witness:
  "opt_sameSite \<lparr>opt_sameSite = None, opt_value = ''abc''\<rparr> = None \<and>
   legacySameSiteCookie (config (new_TransientStore demo_config)) \<and>
   setCookieValues (newCalls [] (fst (snd (save demo_signing (encode demo_mac) ''nonce'' []
      \<lparr>opt_sameSite = None, opt_value = ''abc''\<rparr> (new_TransientStore demo_config))))) =
     [(''nonce'', Signed ''abc'' (''nonce'', ''abc'', Some (demo_signing ''new''))),
      (''_nonce'', Signed ''abc'' (''_nonce'', ''abc'', Some (demo_signing ''new'')))]"
proof -
  have h1: "opt_sameSite \<lparr>opt_sameSite = None, opt_value = ''abc''\<rparr> = None \<or>
            opt_sameSite \<lparr>opt_sameSite = None, opt_value = ''abc''\<rparr> = Some SameSiteNone"
    by simp
  have h2: "legacySameSiteCookie (config (new_TransientStore demo_config))"
    by (simp add: new_TransientStore_def demo_config_def)
  have k: "firstKey (fst (getKeys demo_signing (new_TransientStore demo_config))) =
           Some (demo_signing ''new'')"
    by (simp add: getKeys_def Let_def new_TransientStore_def demo_config_def firstKey_def)
  from save_fallback_cookie_value[OF h1 h2, of "[]" demo_signing "encode demo_mac" "''nonce''"]
  show ?thesis using h2 by (simp add: k encode_def demo_mac_def)
qed

text \<open>
  The claim as stated fails with a codec that binds the cookie name into the tag: for the
  cookie \<^verbatim>\<open>state\<close> with value \<^verbatim>\<open>abc\<close>, the value written under
  \<^verbatim>\<open>_state\<close> differs from the one written under \<^verbatim>\<open>state\<close>.
\<close>

theorem save_fallback_value_differs:
  "map fst (setCookieValues (fst (snd (save demo_signing (encode demo_mac) ''state'' []
      \<lparr>opt_sameSite = Some SameSiteNone, opt_value = ''abc''\<rparr>
      (new_TransientStore demo_config))))) = [''state'', ''_state''] \<and>
   snd (setCookieValues (fst (snd (save demo_signing (encode demo_mac) ''state'' []
      \<lparr>opt_sameSite = Some SameSiteNone, opt_value = ''abc''\<rparr>
      (new_TransientStore demo_config)))) ! 0) \<noteq>
   snd (setCookieValues (fst (snd (save demo_signing (encode demo_mac) ''state'' []
      \<lparr>opt_sameSite = Some SameSiteNone, opt_value = ''abc''\<rparr>
      (new_TransientStore demo_config)))) ! 1)"
  by (simp add: save_eq Let_def new_TransientStore_def demo_config_def getKeys_def firstKey_def
        encode_def demo_mac_def)

text \<open>
  C2. Every call of \<^verbatim>\<open>read\<close> leaves the earlier calls on the response as they
  were, makes \<^verbatim>\<open>clearCookie(key, cookieConfig)\<close> its first call and clears the
  cookie \<open>key\<close> exactly once, whatever the request's cookies are and whatever the
  verification returns. A user agent that applies the response holds no cookie \<open>key\<close>
  afterwards, whatever it held before.
\<close>

theorem read_clears_primary_once:
  "take (length res) (fst (snd (read signing get key cookies res st))) = res \<and>
   newCalls res (fst (snd (read signing get key cookies res st))) ! 0 =
     ClearCookie key (session_cookie (config st)) \<and>
   filter (isClearOf key) (newCalls res (fst (snd (read signing get key cookies res st)))) =
     [ClearCookie key (session_cookie (config st))] \<and>
   applyCalls jar (fst (snd (read signing get key cookies res st))) key = None"
  by (simp add: read_eq Let_def applyCalls_def)

text \<open>
  C3. The first call of \<^verbatim>\<open>save\<close> sets the primary cookie; its \<^verbatim>\<open>secure\<close>
  attribute is true when \<^verbatim>\<open>sameSite\<close> is \<^verbatim>\<open>'none'\<close> (given or by default),
  whatever the configuration says, and is the configured
  \<^verbatim>\<open>session.cookie.secure\<close> for every other \<^verbatim>\<open>sameSite\<close>.
\<close>

theorem save_primary_secure:
  "newCalls res (fst (snd (save signing gen key res opts st))) ! 0 =
     SetCookie key (gen key (opt_value opts) (firstKey (fst (getKeys signing st))))
       \<lparr>httpOnly = True,
        secure = (if (case opt_sameSite opts of None \<Rightarrow> SameSiteNone | Some s \<Rightarrow> s) = SameSiteNone
                  then Some True else cookie_secure (session_cookie (config st))),
        domain = cookie_domain (session_cookie (config st)),
        path = cookie_path (session_cookie (config st)),
        sameSite = Some (case opt_sameSite opts of None \<Rightarrow> SameSiteNone | Some s \<Rightarrow> s)\<rparr>"
  by (simp add: save_eq Let_def)

text \<open>
  C9. With \<^verbatim>\<open>legacySameSiteCookie\<close> enabled, every call of \<^verbatim>\<open>read\<close> clears
  the fallback cookie \<open>_key\<close>, exactly once and as its last call, for every request and
  every outcome of the verification: also when the primary cookie yielded a value and the
  fallback cookie was not looked up.
\<close>

theorem read_clears_fallback:
  assumes "legacySameSiteCookie (config st)"
  shows "filter (isClearOf (CHR ''_'' # key))
           (newCalls res (fst (snd (read signing get key cookies res st)))) =
         [ClearCookie (CHR ''_'' # key) (session_cookie (config st))] \<and>
         last (fst (snd (read signing get key cookies res st))) =
           ClearCookie (CHR ''_'' # key) (session_cookie (config st))"
  using assms by (simp add: read_eq Let_def)

theorem read_clears_fallback_witness:
  "legacySameSiteCookie (config (new_TransientStore demo_config)) \<and>
   fst (read demo_signing (getCookieValue demo_mac) ''state''
          [''state'' \<mapsto> encode demo_mac ''state'' ''abc'' (Some (demo_signing ''new''))] []
          (new_TransientStore demo_config)) = Some ''abc'' \<and>
   filter (isClearOf ''_state'')
     (newCalls [] (fst (snd (read demo_signing (getCookieValue demo_mac) ''state''
          [''state'' \<mapsto> encode demo_mac ''state'' ''abc'' (Some (demo_signing ''new''))] []
          (new_TransientStore demo_config))))) =
     [ClearCookie ''_state'' (session_cookie demo_config)]"
proof -
  have h: "legacySameSiteCookie (config (new_TransientStore demo_config))"
    by (simp add: new_TransientStore_def demo_config_def)
  have v: "fst (read demo_signing (getCookieValue demo_mac) ''state''
          [''state'' \<mapsto> encode demo_mac ''state'' ''abc'' (Some (demo_signing ''new''))] []
          (new_TransientStore demo_config)) = Some ''abc''"
    by (simp add: read_eq Let_def new_TransientStore_def demo_config_def getKeys_def
          getCookieValue_def decode_def encode_def matchingKey_def demo_mac_def falsy_def)
  have c: "config (new_TransientStore demo_config) = demo_config"
    by (simp add: new_TransientStore_def)
  from read_clears_fallback[OF h, of "''state''" "[]" demo_signing "getCookieValue demo_mac"
      "[''state'' \<mapsto> encode demo_mac ''state'' ''abc'' (Some (demo_signing ''new''))]"]
  show ?thesis using h v by (simp add: c)
qed

section \<open>Secret rotation\<close>

lemma find_first_index:
  "i < length xs \<Longrightarrow> P (xs ! i) \<Longrightarrow>
   \<exists>j\<le>i. find P xs = Some (xs ! j) \<and> P (xs ! j) \<and> (\<forall>j'<j. \<not> P (xs ! j'))"
proof (induction xs arbitrary: i)
  case Nil
  then show ?case by simp
next
  case (Cons x xs)
  show ?case
  proof (cases "P x")
    case True
    then have "find P (x # xs) = Some ((x # xs) ! 0) \<and> P ((x # xs) ! 0) \<and>
               (\<forall>j'<0. \<not> P ((x # xs) ! j'))"
      by simp
    then show ?thesis by blast
  next
    case False
    with Cons.prems obtain i' where i': "i = Suc i'"
      by (cases i) auto
    with Cons.prems have "i' < length xs" "P (xs ! i')"
      by auto
    from Cons.IH[OF this] obtain j where
      j: "j \<le> i'" "find P xs = Some (xs ! j)" "P (xs ! j)" "\<forall>j'<j. \<not> P (xs ! j')"
      by blast
    have "\<forall>j'<Suc j. \<not> P ((x # xs) ! j')"
    proof (intro allI impI)
      fix j' assume "j' < Suc j"
      then show "\<not> P ((x # xs) ! j')"
        using False j(4) by (cases j') auto
    qed
    with j i' False have "Suc j \<le> i \<and> find P (x # xs) = Some ((x # xs) ! Suc j) \<and>
        P ((x # xs) ! Suc j) \<and> (\<forall>j'<Suc j. \<not> P ((x # xs) ! j'))"
      by simp
    then show ?thesis by blast
  qed
qed

text \<open>
  Key selection. Let the key cache be consistent and let the configured secrets be
  \<open>s\<^sub>0, s\<^sub>1, \<dots>\<close> with at least one secret. Then (1) every cookie \<^verbatim>\<open>save\<close> sets
  is generated with the key of the first secret \<open>s\<^sub>0\<close> only; (2) \<^verbatim>\<open>read\<close> hands
  the keys of all the configured secrets, in configured order, to
  \<^verbatim>\<open>getCookieValue\<close>; (3) with the codec as described, a cookie signed under any
  configured secret \<open>s\<^sub>i\<close> is verified, and \<^verbatim>\<open>read\<close> returns its value unless
  legacy mode is on and the value is empty, when it returns the outcome of the fallback
  cookie instead; and (4) the key that verifies it is the first key in configured order
  whose tag matches.
\<close>

lemma rotation_keys:
  assumes cons: "cacheConsistent signing st"
      and i: "i < length (secrets (secret (config st)))"
      and c: "cookies key =
                Some (encode mac key v (Some (signing (secrets (secret (config st)) ! i))))"
  shows "map snd (setCookieValues (newCalls sres (fst (snd (save signing gen name sres opts st))))) =
           map (\<lambda>n. gen n (opt_value opts) (Some (signing (secrets (secret (config st)) ! 0))))
             (map fst (setCookieValues (newCalls sres (fst (snd (save signing gen name sres opts st))))))
         \<and> fst (read signing get key cookies res st) =
             (if legacySameSiteCookie (config st) \<and>
                 falsy (get key (cookies key) (map signing (secrets (secret (config st)))))
              then get (CHR ''_'' # key) (cookies (CHR ''_'' # key))
                     (map signing (secrets (secret (config st))))
              else get key (cookies key) (map signing (secrets (secret (config st)))))
         \<and> getCookieValue mac key (cookies key) (map signing (secrets (secret (config st)))) = Some v
         \<and> fst (read signing (getCookieValue mac) key cookies res st) =
             (if legacySameSiteCookie (config st) \<and> v = []
              then getCookieValue mac (CHR ''_'' # key) (cookies (CHR ''_'' # key))
                     (map signing (secrets (secret (config st))))
              else Some v)
         \<and> (\<exists>j\<le>i. matchingKey mac key v
                      (mac key v (Some (signing (secrets (secret (config st)) ! i))))
                      (map signing (secrets (secret (config st)))) =
                    Some (signing (secrets (secret (config st)) ! j))
                \<and> (\<forall>j'<j. mac key v (Some (signing (secrets (secret (config st)) ! j'))) \<noteq>
                           mac key v (Some (signing (secrets (secret (config st)) ! i)))))"
proof -
  let ?ss = "secrets (secret (config st))"
  let ?ks = "map signing ?ss"
  let ?t = "mac key v (Some (signing (?ss ! i)))"
  have ks: "fst (getKeys signing st) = ?ks"
    using cons by (rule getKeys_consistent)
  from i obtain s0 rest where ss: "?ss = s0 # rest"
    by (cases ?ss) auto
  have first: "firstKey ?ks = Some (signing (?ss ! 0))"
    by (simp add: ss firstKey_def)
  have A: "map snd (setCookieValues (newCalls sres (fst (snd (save signing gen name sres opts st))))) =
           map (\<lambda>n. gen n (opt_value opts) (Some (signing (?ss ! 0))))
             (map fst (setCookieValues (newCalls sres (fst (snd (save signing gen name sres opts st))))))"
    by (simp add: save_eq Let_def ks first)
  have B: "fst (read signing get key cookies res st) =
             (if legacySameSiteCookie (config st) \<and> falsy (get key (cookies key) ?ks)
              then get (CHR ''_'' # key) (cookies (CHR ''_'' # key)) ?ks
              else get key (cookies key) ?ks)"
    by (simp add: read_eq Let_def ks)
  have "i < length ?ks" "(\<lambda>k. mac key v (Some k) = ?t) (?ks ! i)"
    using i by simp_all
  from find_first_index[of i ?ks "\<lambda>k. mac key v (Some k) = ?t", OF this]
  obtain j where j: "j \<le> i" "find (\<lambda>k. mac key v (Some k) = ?t) ?ks = Some (?ks ! j)"
      "\<forall>j'<j. mac key v (Some (?ks ! j')) \<noteq> ?t"
    by blast
  have D: "\<exists>j\<le>i. matchingKey mac key v ?t ?ks = Some (signing (?ss ! j))
                \<and> (\<forall>j'<j. mac key v (Some (signing (?ss ! j'))) \<noteq> ?t)"
    using j i by (intro exI[of _ j]) (auto simp: matchingKey_def)
  then have found: "getCookieValue mac key (cookies key) ?ks = Some v"
    by (auto simp: c getCookieValue_def decode_def encode_def)
  have C: "fst (read signing (getCookieValue mac) key cookies res st) =
             (if legacySameSiteCookie (config st) \<and> v = []
              then getCookieValue mac (CHR ''_'' # key) (cookies (CHR ''_'' # key)) ?ks
              else Some v)"
    by (simp add: read_eq Let_def ks found falsy_def)
  from A B found C D show ?thesis by blast
qed

lemma rotation_keys_example:
  "cacheConsistent demo_signing (new_TransientStore demo_config) \<and>
   secrets (secret (config (new_TransientStore demo_config))) ! 1 = ''old'' \<and>
   (1::nat) < length (secrets (secret (config (new_TransientStore demo_config)))) \<and>
   fst (read demo_signing (getCookieValue demo_mac) ''state''
          [''state'' \<mapsto> encode demo_mac ''state'' ''abc'' (Some (demo_signing ''old''))] []
          (new_TransientStore demo_config)) = Some ''abc''"
proof -
  have h1: "cacheConsistent demo_signing (new_TransientStore demo_config)"
    by (rule new_consistent)
  have s1: "secrets (secret (config (new_TransientStore demo_config))) ! 1 = ''old''"
    by (simp add: new_TransientStore_def demo_config_def)
  have h2: "(1::nat) < length (secrets (secret (config (new_TransientStore demo_config))))"
    by (simp add: new_TransientStore_def demo_config_def)
  have h3: "[''state'' \<mapsto> encode demo_mac ''state'' ''abc'' (Some (demo_signing ''old''))] ''state'' =
      Some (encode demo_mac ''state'' ''abc''
        (Some (demo_signing (secrets (secret (config (new_TransientStore demo_config))) ! 1))))"
    by (simp add: new_TransientStore_def demo_config_def)
  from rotation_keys[where signing = demo_signing and st = "new_TransientStore demo_config"
         and i = 1 and key = "''state''" and v = "''abc''" and mac = demo_mac
         and cookies = "[''state'' \<mapsto> encode demo_mac ''state'' ''abc'' (Some (demo_signing ''old''))]"
         and res = "[]", OF h1 h2 h3]
  have "fst (read demo_signing (getCookieValue demo_mac) ''state''
          [''state'' \<mapsto> encode demo_mac ''state'' ''abc'' (Some (demo_signing ''old''))] []
          (new_TransientStore demo_config)) =
        (if legacySameSiteCookie (config (new_TransientStore demo_config)) \<and> ''abc'' = []
         then getCookieValue demo_mac ''_state''
                ([''state'' \<mapsto> encode demo_mac ''state'' ''abc'' (Some (demo_signing ''old''))] ''_state'')
                (map demo_signing (secrets (secret (config (new_TransientStore demo_config)))))
         else Some ''abc'')"
    by blast
  then have "fst (read demo_signing (getCookieValue demo_mac) ''state''
          [''state'' \<mapsto> encode demo_mac ''state'' ''abc'' (Some (demo_signing ''old''))] []
          (new_TransientStore demo_config)) = Some ''abc''"
    by simp
  with h1 s1 h2 show ?thesis by simp
qed


section \<open>Properties of the logout handler\<close>

lemma logout_eq:
  "logout isURL urlJoin cfg endSessionUrl sessionCache options s res =
     (let returnURL = logoutReturnURL isURL urlJoin cfg options;
          s1 = snd (isAuthenticated sessionCache s);
          idToken = fst (getIdToken sessionCache s1);
          s3 = delete sessionCache (snd (getIdToken sessionCache s1));
          params = endSessionParams options returnURL idToken
      in if \<not> fst (isAuthenticated sessionCache s)
         then (Inr (), s1, res @ [IsAuthenticated, Redirect returnURL])
         else if \<not> idpLogout cfg
         then (Inr (), s3, res @ [IsAuthenticated, GetIdToken, SessionDelete, Redirect returnURL])
         else (case endSessionUrl params of
                 Inl e \<Rightarrow> (Inl e, s3,
                           res @ [IsAuthenticated, GetIdToken, SessionDelete, EndSessionUrl params])
               | Inr url \<Rightarrow> (Inr (), s3,
                           res @ [IsAuthenticated, GetIdToken, SessionDelete, EndSessionUrl params,
                                  Redirect url])))"
  by (simp add: logout_def Let_def case_prod_beta split: sum.splits)

text \<open>
  C7. When the session reports the user as authenticated, the handler calls
  \<^verbatim>\<open>isAuthenticated\<close>, \<^verbatim>\<open>getIdToken\<close> and \<^verbatim>\<open>delete\<close> first, in this
  order: no end-session URL is computed before the session is deleted. The session state
  the handler leaves is the deleted one in every outcome; in particular, when
  identity-provider logout is enabled and \<^verbatim>\<open>endSessionUrl\<close> fails with \<open>e\<close>, the
  handler fails with \<open>e\<close>, issues no redirect, and the session is deleted all the same.
\<close>

theorem logout_deletes_session_first:
  assumes "fst (isAuthenticated sessionCache s)"
  shows "fst (snd (logout isURL urlJoin cfg endSessionUrl sessionCache options s res)) =
           delete sessionCache
             (snd (getIdToken sessionCache (snd (isAuthenticated sessionCache s))))
         \<and> take 3 (newCalls res
               (snd (snd (logout isURL urlJoin cfg endSessionUrl sessionCache options s res)))) =
             [IsAuthenticated, GetIdToken, SessionDelete]
         \<and> filter isEndSessionUrl
             (takeWhile (\<lambda>c. c \<noteq> SessionDelete)
                (newCalls res
                   (snd (snd (logout isURL urlJoin cfg endSessionUrl sessionCache options s res))))) = []
         \<and> (idpLogout cfg \<and>
              endSessionUrl
                (endSessionParams options (logoutReturnURL isURL urlJoin cfg options)
                   (fst (getIdToken sessionCache (snd (isAuthenticated sessionCache s))))) = Inl e
             \<longrightarrow> fst (logout isURL urlJoin cfg endSessionUrl sessionCache options s res) = Inl e \<and>
                 filter isRedirect
                   (newCalls res
                      (snd (snd (logout isURL urlJoin cfg endSessionUrl sessionCache options s res)))) = [])"
  using assms by (simp add: logout_eq Let_def split: sum.splits)

theorem logout_deletes_session_first_witness:
  "fst (isAuthenticated demo_sessionCache (Some ''id-token'')) \<and>
   idpLogout demo_config \<and>
   logout demo_isURL demo_urlJoin demo_config (\<lambda>ps. Inl ''no end_session_endpoint'')
     demo_sessionCache \<lparr>returnTo = None, logoutParams = None\<rparr> (Some ''id-token'')
     ([] :: unit call list) =
     (Inl ''no end_session_endpoint'', None,
      [IsAuthenticated, GetIdToken, SessionDelete,
       EndSessionUrl [(''post_logout_redirect_uri'', Some ''http://www.acme.com''),
                      (''id_token_hint'', Some ''id-token'')]])"
proof -
  have h: "fst (isAuthenticated demo_sessionCache (Some ''id-token''))"
    by (simp add: demo_sessionCache_def)
  have i: "idpLogout demo_config"
    by (simp add: demo_config_def)
  have r: "logoutReturnURL demo_isURL demo_urlJoin demo_config \<lparr>returnTo = None, logoutParams = None\<rparr> =
           ''http://www.acme.com''"
    by (simp add: logoutReturnURL_def demo_isURL_def demo_urlJoin_def demo_config_def)
  have p: "endSessionParams \<lparr>returnTo = None, logoutParams = None\<rparr> ''http://www.acme.com''
             (Some ''id-token'') =
           [(''post_logout_redirect_uri'', Some ''http://www.acme.com''),
            (''id_token_hint'', Some ''id-token'')]"
    by (simp add: endSessionParams_def)
  have l: "snd (snd (logout demo_isURL demo_urlJoin demo_config
                  (\<lambda>ps. Inl ''no end_session_endpoint'' :: string + string)
                  demo_sessionCache \<lparr>returnTo = None, logoutParams = None\<rparr> (Some ''id-token'')
                  ([] :: unit call list))) =
      [IsAuthenticated, GetIdToken, SessionDelete,
       EndSessionUrl [(''post_logout_redirect_uri'', Some ''http://www.acme.com''),
                      (''id_token_hint'', Some ''id-token'')]]"
    using i by (simp add: logout_eq Let_def r p demo_sessionCache_def)
  from logout_deletes_session_first[OF h, of demo_isURL demo_urlJoin demo_config
      "\<lambda>ps. Inl ''no end_session_endpoint''" "\<lparr>returnTo = None, logoutParams = None\<rparr>"
      "[] :: unit call list" "''no end_session_endpoint''"]
  have "fst (snd (logout demo_isURL demo_urlJoin demo_config
                  (\<lambda>ps. Inl ''no end_session_endpoint'' :: string + string)
                  demo_sessionCache \<lparr>returnTo = None, logoutParams = None\<rparr> (Some ''id-token'')
                  ([] :: unit call list))) = None
        \<and> fst (logout demo_isURL demo_urlJoin demo_config
                  (\<lambda>ps. Inl ''no end_session_endpoint'' :: string + string)
                  demo_sessionCache \<lparr>returnTo = None, logoutParams = None\<rparr> (Some ''id-token'')
                  ([] :: unit call list)) = Inl ''no end_session_endpoint''"
    using i by (simp add: demo_sessionCache_def)
  with l h i show ?thesis
    by (simp add: prod_eq_iff)
qed

text \<open>
  C8. When the session reports the user as not authenticated, the handler makes two
  calls, the \<^verbatim>\<open>isAuthenticated\<close> query and the redirect to the resolved return
  URL, and succeeds. \<^verbatim>\<open>delete\<close> is not called: the session state is the one the
  query left.
\<close>

theorem logout_not_authenticated:
  assumes "\<not> fst (isAuthenticated sessionCache s)"
  shows "logout isURL urlJoin cfg endSessionUrl sessionCache options s res =
           (Inr (), snd (isAuthenticated sessionCache s),
            res @ [IsAuthenticated, Redirect (logoutReturnURL isURL urlJoin cfg options)])
         \<and> filter (\<lambda>c. c = SessionDelete)
             (newCalls res
                (snd (snd (logout isURL urlJoin cfg endSessionUrl sessionCache options s res)))) = []"
  using assms by (simp add: logout_eq Let_def)

theorem logout_not_authenticated_witness:
  "\<not> fst (isAuthenticated demo_sessionCache None) \<and>
   logout demo_isURL demo_urlJoin demo_config
     (\<lambda>ps. Inl ''no end_session_endpoint'' :: string + string)
     demo_sessionCache \<lparr>returnTo = Some ''/bye'', logoutParams = None\<rparr> None
     ([] :: unit call list) =
     (Inr (), None, [IsAuthenticated, Redirect ''http://www.acme.com/bye''])"
proof -
  have h: "\<not> fst (isAuthenticated demo_sessionCache None)"
    by (simp add: demo_sessionCache_def)
  have r: "logoutReturnURL demo_isURL demo_urlJoin demo_config
             \<lparr>returnTo = Some ''/bye'', logoutParams = None\<rparr> = ''http://www.acme.com/bye''"
    by (simp add: logoutReturnURL_def demo_isURL_def demo_urlJoin_def demo_config_def)
  have s: "snd (isAuthenticated demo_sessionCache None) = None"
    by (simp add: demo_sessionCache_def)
  from logout_not_authenticated[OF h, of demo_isURL demo_urlJoin demo_config
      "\<lambda>ps. Inl ''no end_session_endpoint'' :: string + string"
      "\<lparr>returnTo = Some ''/bye'', logoutParams = None\<rparr>" "[] :: unit call list"]
  have "logout demo_isURL demo_urlJoin demo_config
     (\<lambda>ps. Inl ''no end_session_endpoint'' :: string + string)
     demo_sessionCache \<lparr>returnTo = Some ''/bye'', logoutParams = None\<rparr> None
     ([] :: unit call list) =
     (Inr (), None, [IsAuthenticated, Redirect ''http://www.acme.com/bye''])"
    by (simp add: r s)
  with h show ?thesis by blast
qed

section \<open>Properties of the login handler\<close>

lemma map_of_first:
  "k \<notin> fst ` set pre \<Longrightarrow> map_of (pre @ (k, v) # rest) k = Some v"
  by (induction pre) auto

lemma login_success:
  assumes "loginState isPathRelative resolveAgainstOrigin cfg lcfg query options = Inr state"
  shows "map fst (setCookieValues (newCalls res (fst (snd
           (login signing gen isPathRelative resolveAgainstOrigin encodeState codeChallenge
              authorizeUrl cfg lcfg query options nonce codeVerifier res st))))) =
           [''nonce'', ''state'', ''code_verifier'']
         \<and> filter isRedirect (newCalls res (fst (snd
           (login signing gen isPathRelative resolveAgainstOrigin encodeState codeChallenge
              authorizeUrl cfg lcfg query options nonce codeVerifier res st)))) =
           [Redirect (authorizeUrl (authorizationParameters cfg lcfg options (encodeState state)
                        nonce (codeChallenge codeVerifier)))]"
  using assms by (simp add: login_def Let_def save_eq case_prod_beta)

text \<open>
  C5. Let the first \<^verbatim>\<open>returnTo\<close> parameter of the query string be \<open>r\<close> (no
  parameter before it is named \<^verbatim>\<open>returnTo\<close>; any parameters may follow, further
  \<^verbatim>\<open>returnTo\<close> ones included). Then only \<open>r\<close> is considered: the login state is
  the one of the query string that holds \<open>r\<close> alone, for every option and custom state,
  and \<open>r\<close> is taken if it is path-relative and rejected otherwise. With neither an
  explicit option nor a custom state, a rejected \<open>r\<close> leaves the login state without a
  \<^verbatim>\<open>returnTo\<close> (absent), and a path-relative \<open>r\<close> is in the login state resolved
  against the origin of the effective redirect URI.
\<close>

theorem login_query_returnTo:
  assumes "''returnTo'' \<notin> fst ` set pre"
  shows "queryReturnTo isPathRelative (pre @ (''returnTo'', r) # rest) =
           (if isPathRelative r then SafeReturnTo r else RejectedReturnTo)
         \<and> loginState isPathRelative resolveAgainstOrigin cfg lcfg
             (pre @ (''returnTo'', r) # rest) options =
           loginState isPathRelative resolveAgainstOrigin cfg lcfg [(''returnTo'', r)] options
         \<and> (login_returnTo options = None \<and> getLoginState options = None \<longrightarrow>
              loginState isPathRelative resolveAgainstOrigin cfg lcfg
                (pre @ (''returnTo'', r) # rest) options =
              Inr (if isPathRelative r
                   then [(''returnTo'', resolveAgainstOrigin (effectiveRedirectUri cfg lcfg options) r)]
                   else []))"
proof -
  have first: "map_of (pre @ (''returnTo'', r) # rest) ''returnTo'' = Some r"
    using assms by (rule map_of_first)
  have q: "queryReturnTo isPathRelative (pre @ (''returnTo'', r) # rest) =
             (if isPathRelative r then SafeReturnTo r else RejectedReturnTo)"
    by (simp only: queryReturnTo_def first option.case)
  have q1: "queryReturnTo isPathRelative [(''returnTo'', r)] =
             (if isPathRelative r then SafeReturnTo r else RejectedReturnTo)"
    by (simp add: queryReturnTo_def)
  have same: "resolveReturnTo isPathRelative resolveAgainstOrigin cfg lcfg
                (pre @ (''returnTo'', r) # rest) options =
              resolveReturnTo isPathRelative resolveAgainstOrigin cfg lcfg
                [(''returnTo'', r)] options"
    by (simp only: resolveReturnTo_def q q1)
  have A: "loginState isPathRelative resolveAgainstOrigin cfg lcfg
             (pre @ (''returnTo'', r) # rest) options =
           loginState isPathRelative resolveAgainstOrigin cfg lcfg [(''returnTo'', r)] options"
    by (simp only: loginState_def same)
  have B: "login_returnTo options = None \<and> getLoginState options = None \<longrightarrow>
              loginState isPathRelative resolveAgainstOrigin cfg lcfg
                (pre @ (''returnTo'', r) # rest) options =
              Inr (if isPathRelative r
                   then [(''returnTo'', resolveAgainstOrigin (effectiveRedirectUri cfg lcfg options) r)]
                   else [])"
    by (simp add: loginState_def resolveReturnTo_def q Let_def)
  from q A B show ?thesis by blast
qed

theorem login_query_returnTo_witness:
  "''returnTo'' \<notin> fst ` set ([] :: (string \<times> string) list) \<and>
   loginState demo_isPathRelative demo_resolveAgainstOrigin demo_config demo_loginConfig
     [(''returnTo'', ''/foo''), (''returnTo'', ''/bar'')]
     \<lparr>login_returnTo = None, authorizationParams = [], getLoginState = None\<rparr> =
     Inr [(''returnTo'', ''http://www.acme.com/foo'')] \<and>
   loginState demo_isPathRelative demo_resolveAgainstOrigin demo_config demo_loginConfig
     [(''returnTo'', ''https://evil.com'')]
     \<lparr>login_returnTo = None, authorizationParams = [], getLoginState = None\<rparr> =
     Inr []"
proof -
  let ?opts = "\<lparr>login_returnTo = None, authorizationParams = [], getLoginState = None\<rparr>"
  have h: "''returnTo'' \<notin> fst ` set ([] :: (string \<times> string) list)"
    by simp
  have foo: "demo_isPathRelative ''/foo''"
    by (simp add: demo_isPathRelative_def)
  have evil: "\<not> demo_isPathRelative ''https://evil.com''"
    by (simp add: demo_isPathRelative_def)
  have o: "login_returnTo ?opts = None \<and> getLoginState ?opts = None"
    by simp
  have base: "effectiveRedirectUri demo_config demo_loginConfig ?opts = ''http://www.acme.com''"
    by (simp add: effectiveRedirectUri_def demo_config_def demo_loginConfig_def)
  have res: "demo_resolveAgainstOrigin ''http://www.acme.com'' ''/foo'' = ''http://www.acme.com/foo''"
    by (simp add: demo_resolveAgainstOrigin_def Let_def)
  from login_query_returnTo[OF h, of demo_isPathRelative "''/foo''" "[(''returnTo'', ''/bar'')]"
      demo_resolveAgainstOrigin demo_config demo_loginConfig ?opts]
  have "loginState demo_isPathRelative demo_resolveAgainstOrigin demo_config demo_loginConfig
     ([] @ (''returnTo'', ''/foo'') # [(''returnTo'', ''/bar'')]) ?opts =
     Inr (if demo_isPathRelative ''/foo''
          then [(''returnTo'', demo_resolveAgainstOrigin
                   (effectiveRedirectUri demo_config demo_loginConfig ?opts) ''/foo'')]
          else [])"
    using o by blast
  then have 1: "loginState demo_isPathRelative demo_resolveAgainstOrigin demo_config demo_loginConfig
     [(''returnTo'', ''/foo''), (''returnTo'', ''/bar'')] ?opts =
     Inr [(''returnTo'', ''http://www.acme.com/foo'')]"
    using foo by (simp only: append_Nil if_True base res)
  from login_query_returnTo[OF h, of demo_isPathRelative "''https://evil.com''" "[]"
      demo_resolveAgainstOrigin demo_config demo_loginConfig ?opts]
  have "loginState demo_isPathRelative demo_resolveAgainstOrigin demo_config demo_loginConfig
     ([] @ (''returnTo'', ''https://evil.com'') # []) ?opts =
     Inr (if demo_isPathRelative ''https://evil.com''
          then [(''returnTo'', demo_resolveAgainstOrigin
                   (effectiveRedirectUri demo_config demo_loginConfig ?opts) ''https://evil.com'')]
          else [])"
    using o by blast
  then have 2: "loginState demo_isPathRelative demo_resolveAgainstOrigin demo_config demo_loginConfig
     [(''returnTo'', ''https://evil.com'')] ?opts = Inr []"
    using evil by (simp only: append_Nil if_False)
  from h 1 2 show ?thesis by blast
qed

text \<open>
  C6. When the custom state hook returns a value that is not a mapping, login fails with
  \<open>InvalidCustomState\<close>; the response and the transient store are as they were, so no
  cookie is set and no redirect is issued; and the failure surfaces as the server error
  500 whose status text names the cause, "Custom state value must be an object".
\<close>

theorem login_invalid_custom_state:
  assumes "getLoginState options = Some h"
      and "\<forall>m. h \<noteq> StateMapping m"
  shows "login signing gen isPathRelative resolveAgainstOrigin encodeState codeChallenge
           authorizeUrl cfg lcfg query options nonce codeVerifier res st =
           (Inl InvalidCustomState, res, st)
         \<and> errorResponse InvalidCustomState =
             (500, ''Login handler failed. CAUSE: Custom state value must be an object'')"
  using assms
  by (cases h) (simp_all add: login_def loginState_def Let_def errorResponse_def)

theorem login_invalid_custom_state_witness:
  "getLoginState \<lparr>login_returnTo = None, authorizationParams = [],
                  getLoginState = Some (StateNumber 1)\<rparr> = Some (StateNumber 1) \<and>
   login demo_signing (encode demo_mac) demo_isPathRelative demo_resolveAgainstOrigin
     (\<lambda>state. concat (map (\<lambda>(k, v). k @ ''='' @ v @ '';'') state)) rev
     (\<lambda>params. ''https://acme.auth0.local/authorize'') demo_config demo_loginConfig []
     \<lparr>login_returnTo = None, authorizationParams = [], getLoginState = Some (StateNumber 1)\<rparr>
     ''n1'' ''v1'' [] (new_TransientStore demo_config) =
     (Inl InvalidCustomState, [], new_TransientStore demo_config)"
proof -
  let ?opts = "\<lparr>login_returnTo = None, authorizationParams = [],
                getLoginState = Some (StateNumber 1)\<rparr>"
  have h1: "getLoginState ?opts = Some (StateNumber 1)"
    by simp
  have h2: "\<forall>m. StateNumber 1 \<noteq> StateMapping m"
    by simp
  from login_invalid_custom_state[OF h1 h2, of demo_signing "encode demo_mac" demo_isPathRelative
      demo_resolveAgainstOrigin "\<lambda>state. concat (map (\<lambda>(k, v). k @ ''='' @ v @ '';'') state)" rev
      "\<lambda>params. ''https://acme.auth0.local/authorize''" demo_config demo_loginConfig "[]"
      "''n1''" "''v1''" "[]" "new_TransientStore demo_config"]
  show ?thesis using h1 by blast
qed

end
